theory Spec2Isabelle
  imports Main
begin

section \<open>JavaScript values used by the link engine\<close>

text \<open>
  An attribute read (\<open>$(el).attr(name)\<close>) is either \<open>undefined\<close> or a string: it is a
  \<open>string option\<close>, \<open>None\<close> being \<open>undefined\<close>. A string is a list of code units; the
  units that matter here (class names, colours, URLs of the examples) are ASCII.
\<close>

definition truthy :: "string option \<Rightarrow> bool" where
  \<comment> \<open>\<open>if (v)\<close> on a string or \<open>undefined\<close>: \<open>undefined\<close> and the empty string are falsy\<close>
  "truthy v = (case v of None \<Rightarrow> False | Some s \<Rightarrow> s \<noteq> [])"

definition or_else :: "string option \<Rightarrow> string \<Rightarrow> string" where
  \<comment> \<open>\<open>v || d\<close> on a string or \<open>undefined\<close>\<close>
  "or_else v d = (case v of None \<Rightarrow> d | Some s \<Rightarrow> if s \<noteq> [] then s else d)"

fun js_includes :: "string \<Rightarrow> string \<Rightarrow> bool" where
  \<comment> \<open>\<open>s.includes(sub)\<close>: \<open>sub\<close> occurs in \<open>s\<close> as a contiguous substring\<close>
  "js_includes [] sub = (sub = [])"
| "js_includes (c # cs) sub = (take (length sub) (c # cs) = sub \<or> js_includes cs sub)"

definition js_whitespace :: "char \<Rightarrow> bool" where
  \<comment> \<open>WhiteSpace and LineTerminator code units below 256: TAB, LF, VT, FF, CR, SP, NBSP\<close>
  "js_whitespace c = (of_char c \<in> {9, 10, 11, 12, 13, 32, 160 :: nat})"

definition trim :: "string \<Rightarrow> string" where
  "trim s = rev (dropWhile js_whitespace (rev (dropWhile js_whitespace s)))"

fun tokens_from :: "string \<Rightarrow> string \<Rightarrow> string list" where
  \<comment> \<open>splitting at whitespace, the current token accumulated in the first argument\<close>
  "tokens_from cur [] = (if cur = [] then [] else [cur])"
| "tokens_from cur (c # cs) =
     (if js_whitespace c then (if cur = [] then [] else [cur]) @ tokens_from [] cs
      else tokens_from (cur @ [c]) cs)"

definition tokens :: "string \<Rightarrow> string list" where
  "tokens s = tokens_from [] s"

section \<open>The document tree (what cheerio hands to the engine)\<close>

datatype node = Element string "(string \<times> string) list" "node list" | Text string

fun attr :: "node \<Rightarrow> string \<Rightarrow> string option" where
  \<comment> \<open>\<open>$(el).attr(name)\<close>\<close>
  "attr (Element t as cs) name = map_of as name"
| "attr (Text s) name = None"

fun text_of :: "node \<Rightarrow> string" where
  \<comment> \<open>\<open>$(el).text()\<close>: the text of all descendants, concatenated\<close>
  "text_of (Text s) = s"
| "text_of (Element t as cs) = concat (map text_of cs)"

fun children :: "node \<Rightarrow> node list" where
  "children (Element t as cs) = cs"
| "children (Text s) = []"

fun elements_of :: "node \<Rightarrow> node list" where
  \<comment> \<open>the element nodes of a subtree in document order (preorder)\<close>
  "elements_of (Text s) = []"
| "elements_of (Element t as cs) = Element t as cs # concat (map elements_of cs)"

fun has_tag :: "string \<Rightarrow> node \<Rightarrow> bool" where
  "has_tag name (Element t as cs) = (t = name)"
| "has_tag name (Text s) = False"

definition has_class :: "string \<Rightarrow> node \<Rightarrow> bool" where
  \<comment> \<open>the CSS class selector \<open>.name\<close>: membership among the whitespace-separated tokens\<close>
  "has_class name n = (case attr n ''class'' of None \<Rightarrow> False | Some v \<Rightarrow> name \<in> set (tokens v))"

definition select_tag :: "string \<Rightarrow> node list \<Rightarrow> node list" where
  \<comment> \<open>\<open>$('a')\<close>: every element of that tag, in document order\<close>
  "select_tag name doc = filter (has_tag name) (concat (map elements_of doc))"

definition select_tag_class :: "string \<Rightarrow> string \<Rightarrow> node list \<Rightarrow> node list" where
  \<comment> \<open>\<open>$('tag.class')\<close>\<close>
  "select_tag_class name cls doc =
     filter (\<lambda>n. has_tag name n \<and> has_class cls n) (concat (map elements_of doc))"

section \<open>The HTTP client and the world outside\<close>

datatype payload = StringData string | ParsedData
  \<comment> \<open>\<open>response.data\<close>: the body as a string, or the value axios parsed out of a JSON body\<close>

record response =
  status :: int
  data :: payload
  responseUrl :: "string option"
    \<comment> \<open>\<open>Some u\<close>: \<open>response.request.res.responseUrl\<close> is \<open>u\<close>, the URL after redirects;
        \<open>None\<close>: the response has no \<open>request\<close> (as for a \<open>data:\<close> URL, which axios
        answers itself), so that reading the path throws a TypeError\<close>

datatype answer = NoAnswer | Answer response
  \<comment> \<open>what the transport got for one GET: nothing (DNS failure, refused connection,
      timeout, malformed URL), or a response of any status\<close>

datatype axios_error = AxiosError (error_response: "response option")

record world =
  transport :: "string \<Rightarrow> answer"
  cheerio_load :: "payload \<Rightarrow> node list option"   \<comment> \<open>the HTML parser; \<open>None\<close> when it throws\<close>
  inner_html :: "node list \<Rightarrow> string"              \<comment> \<open>the serialiser behind \<open>.html()\<close>\<close>

text \<open>
  \<open>axios.get\<close> with the default \<open>validateStatus\<close>: a response with a 2xx status resolves
  the promise; a response with any other status rejects it with an error that carries
  the response as \<open>error.response\<close>; no answer rejects it with an error that carries none.
\<close>

definition axios_get :: "world \<Rightarrow> string \<Rightarrow> axios_error + response" where
  "axios_get w u =
     (case transport w u of
        NoAnswer \<Rightarrow> Inl (AxiosError None)
      | Answer resp \<Rightarrow>
          if 200 \<le> status resp \<and> status resp < 300 then Inr resp
          else Inl (AxiosError (Some resp)))"

datatype thrown = FromAxios axios_error | TypeError
  \<comment> \<open>what the try block of \<open>processLink\<close> can throw\<close>

fun response_of :: "thrown \<Rightarrow> response option" where
  \<comment> \<open>\<open>error.response\<close>, \<open>undefined\<close> on a TypeError\<close>
  "response_of (FromAxios e) = error_response e"
| "response_of TypeError = None"

section \<open>Helper functions of server.js\<close>

definition html_of_first :: "world \<Rightarrow> node list \<Rightarrow> string option" where
  \<comment> \<open>\<open>selection.html()\<close>: the inner HTML of the first match, \<open>null\<close> when nothing matched\<close>
  "html_of_first w sel = (case sel of [] \<Rightarrow> None | n # rest \<Rightarrow> Some (inner_html w (children n)))"

definition getPageContent :: "world \<Rightarrow> string \<Rightarrow> bool \<Rightarrow> string list \<times> node list option" where
  \<comment> \<open>returns the requests issued and the document; \<open>None\<close> is the \<open>null\<close> of the catch
      block, reached when the request is rejected and when the parser throws\<close>
  "getPageContent w page_url includeUhf =
     (case axios_get w page_url of
        Inl error \<Rightarrow> ([page_url], None)
      | Inr resp \<Rightarrow>
          (case cheerio_load w (data resp) of
             None \<Rightarrow> ([page_url], None)
           | Some doc \<Rightarrow>
               if \<not> includeUhf then
                 (let primaryAreaContent =
                        html_of_first w
                          (select_tag_class ''main'' ''microsoft-template-layout-container'' doc)
                  in ([page_url], cheerio_load w (StringData (or_else primaryAreaContent ''''))))
               else ([page_url], Some doc)))"

definition getStatusColor :: "int \<Rightarrow> string" where
  "getStatusColor statusCode' =
     (if statusCode' \<ge> 500 then ''red''
      else if statusCode' \<ge> 400 then ''orange''
      else if statusCode' \<ge> 300 then ''yellow''
      else ''green'')"

record link_record =
  linkType :: string
  linkText :: string
  ariaLabel :: string
  url :: "string option"   \<comment> \<open>\<open>href\<close> as read: \<open>undefined\<close> when the attribute is absent\<close>
  redirectedUrl :: string
  statusCode :: int
  target :: string
  statusColor :: string
  originalUrlColor :: string
  redirectedUrlColor :: string

definition classify_role :: "string \<Rightarrow> string" where
  \<comment> \<open>lines 44 to 52 of processLink\<close>
  "classify_role classNames =
     (if js_includes classNames ''cta'' then ''cta''
      else if js_includes classNames ''button'' then ''button''
      else if js_includes classNames ''link'' then ''link''
      else ''unknown'')"

definition try_block :: "world \<Rightarrow> string \<Rightarrow> link_record \<Rightarrow> link_record \<times> thrown option" where
  \<comment> \<open>lines 69 to 78: the record as the block left it, and what it threw if it threw.
      The status is stored before the final URL is read, so a throw at line 71 leaves
      the record with the new \<open>statusCode\<close> and nothing else changed\<close>
  "try_block w href linkDetails =
     (case axios_get w href of
        Inl error \<Rightarrow> (linkDetails, Some (FromAxios error))
      | Inr resp \<Rightarrow>
          (let ld1 = linkDetails\<lparr>statusCode := status resp\<rparr>
           in case responseUrl resp of
                None \<Rightarrow> (ld1, Some TypeError)
              | Some final \<Rightarrow>
                  (let ld2 = ld1\<lparr>redirectedUrl := final,
                                  statusColor := getStatusColor (status resp)\<rparr>
                   in if href \<noteq> redirectedUrl ld2
                      then (ld2\<lparr>originalUrlColor := ''blue'', redirectedUrlColor := ''purple''\<rparr>, None)
                      else (ld2, None))))"

definition on_error :: "thrown \<Rightarrow> link_record \<Rightarrow> link_record" where
  \<comment> \<open>the catch block, lines 79 to 84\<close>
  "on_error error linkDetails =
     (case response_of error of
        Some resp \<Rightarrow> linkDetails\<lparr>statusCode := status resp,
                                  statusColor := getStatusColor (status resp)\<rparr>
      | None \<Rightarrow> linkDetails)"

definition processLink :: "world \<Rightarrow> node \<Rightarrow> string list \<times> link_record" where
  \<comment> \<open>returns the calls of \<open>axios.get\<close> made and the record the promise is fulfilled with\<close>
  "processLink w link =
     (let href = attr link ''href'';
          linkDetails =
            \<lparr>linkType = classify_role (or_else (attr link ''class'') ''''),
             linkText = trim (text_of link),
             ariaLabel = or_else (attr link ''aria-label'') '''',
             url = href,
             redirectedUrl = '''',
             statusCode = 200,
             target = or_else (attr link ''target'') '''',
             statusColor = ''green'',
             originalUrlColor = '''',
             redirectedUrlColor = ''''\<rparr>
      in case href of
           None \<Rightarrow> ([], linkDetails)
         | Some h \<Rightarrow>
             if h \<noteq> [] then
               (case try_block w h linkDetails of
                  (ld, None) \<Rightarrow> ([h], ld)
                | (ld, Some error) \<Rightarrow> ([h], on_error error ld))
             else ([], linkDetails))"

section \<open>The reply: JSON and the join of the probes\<close>

datatype json = JString string | JNumber int | JArray "json list" | JObject "(string \<times> json) list"

definition json_of_record :: "link_record \<Rightarrow> json" where
  \<comment> \<open>\<open>JSON.stringify\<close> of a record: keys in creation order, a key whose value is
      \<open>undefined\<close> is left out\<close>
  "json_of_record r =
     JObject ([(''linkType'', JString (linkType r)),
               (''linkText'', JString (linkText r)),
               (''ariaLabel'', JString (ariaLabel r))]
              @ (case url r of None \<Rightarrow> [] | Some u \<Rightarrow> [(''url'', JString u)])
              @ [(''redirectedUrl'', JString (redirectedUrl r)),
                 (''statusCode'', JNumber (statusCode r)),
                 (''target'', JString (target r)),
                 (''statusColor'', JString (statusColor r)),
                 (''originalUrlColor'', JString (originalUrlColor r)),
                 (''redirectedUrlColor'', JString (redirectedUrlColor r))])"

fun json_keys :: "json \<Rightarrow> string list" where
  "json_keys (JObject kvs) = map fst kvs"
| "json_keys j = []"

datatype body = Plain string | Json json

datatype reply = Reply int body

datatype 'a settled = Fulfilled 'a | Rejected axios_error

text \<open>
  \<open>Promise.all\<close> keeps an array of values and a count of the promises still open. A
  promise fulfilled at index \<open>i\<close> stores its value at position \<open>i\<close> and lowers the count;
  at zero the joined promise is fulfilled with the array. The first rejection rejects
  the joined promise. The completion order is the list of indices in the order in which
  the promises settle; when it ends with promises still open the join stays pending
  (\<open>None\<close>).
\<close>

fun promise_all_loop ::
  "'a settled list \<Rightarrow> nat list \<Rightarrow> 'a option list \<Rightarrow> nat \<Rightarrow> 'a list settled option" where
  "promise_all_loop ps [] vals remaining = None"
| "promise_all_loop ps (i # order) vals remaining =
     (if i \<ge> length ps then promise_all_loop ps order vals remaining
      else case ps ! i of
             Rejected e \<Rightarrow> Some (Rejected e)
           | Fulfilled x \<Rightarrow>
               (if vals ! i \<noteq> None then promise_all_loop ps order vals remaining
                else if remaining - 1 = 0
                     then (case those (vals[i := Some x]) of
                             Some xs \<Rightarrow> Some (Fulfilled xs)
                           | None \<Rightarrow> None)
                     else promise_all_loop ps order (vals[i := Some x]) (remaining - 1)))"

definition promise_all :: "'a settled list \<Rightarrow> nat list \<Rightarrow> 'a list settled option" where
  "promise_all ps order =
     (if ps = [] then Some (Fulfilled [])
      else promise_all_loop ps order (replicate (length ps) None) (length ps))"

section \<open>The route \<open>/link-details\<close>\<close>

definition link_details ::
  "world \<Rightarrow> string \<Rightarrow> bool \<Rightarrow> nat list \<Rightarrow> string list \<times> reply option" where
  \<comment> \<open>the requests issued, page first and then one per probed link in document order,
      and the reply sent (\<open>None\<close> when the handler never replies)\<close>
  "link_details w page_url includeUhf completion =
     (case getPageContent w page_url includeUhf of
        (requests, None) \<Rightarrow>
          (requests, Some (Reply 500 (Plain ''Failed to fetch page content.'')))
      | (requests, Some doc) \<Rightarrow>
          (let linkElements = select_tag ''a'' doc;
               started = map (processLink w) linkElements;
               linkPromises = map (\<lambda>p. Fulfilled (snd p)) started
           in (requests @ concat (map fst started),
               case promise_all linkPromises completion of
                 Some (Fulfilled results) \<Rightarrow>
                   Some (Reply 200 (Json (JObject [(''links'', JArray (map json_of_record results))])))
               | Some (Rejected e) \<Rightarrow> None
               | None \<Rightarrow> None)))"

section \<open>The role rule as the specification words it\<close>

text \<open>
  The specification describes the role by membership of a token in the space-separated
  \<open>classNames\<close>. This definition follows those words, to be compared with
  \<open>classify_role\<close>, which follows the source.
\<close>

definition role_by_token_membership :: "string \<Rightarrow> string" where
  "role_by_token_membership classNames =
     (if ''cta'' \<in> set (tokens classNames) then ''cta''
      else if ''button'' \<in> set (tokens classNames) then ''button''
      else if ''link'' \<in> set (tokens classNames) then ''link''
      else ''unknown'')"

section \<open>Example inputs\<close>

text \<open>A small page and a network for it, used to run the definitions on concrete inputs.\<close>

definition link_ok :: node where
  "link_ok = Element ''a'' [(''class'', ''cta''), (''href'', ''https://x/ok'')] [Text '' Go '']"

definition link_moved :: node where
  "link_moved = Element ''a'' [(''class'', ''button''), (''href'', ''https://x/moved'')] [Text ''Go'']"

definition link_missing :: node where
  "link_missing = Element ''a'' [(''href'', ''https://x/missing'')] [Text ''Missing'']"

definition link_down :: node where
  "link_down = Element ''a'' [(''href'', ''https://x/down'')] [Text ''Down'']"

definition link_no_href :: node where
  "link_no_href = Element ''a'' [(''class'', ''nav link'')] [Text ''Top'']"

definition link_empty_href :: node where
  "link_empty_href = Element ''a'' [(''href'', '''')] [Text ''Nowhere'']"

definition link_old :: node where
  "link_old = Element ''a'' [(''href'', ''https://x/old'')] [Text ''Old'']"

definition link_octagon :: node where
  "link_octagon = Element ''a'' [(''class'', ''octagon'')] [Text ''Shape'']"

definition example_doc :: "node list" where
  "example_doc =
     [Element ''div'' []
        [link_ok, Text ''and'', link_moved,
         Element ''p'' [] [link_missing, link_down],
         link_no_href]]"

definition link_data :: node where
  "link_data = Element ''a'' [(''href'', ''data:text/plain,hi'')] [Text ''Inline'']"

definition example_world :: world where
  "example_world =
     \<lparr>transport = (\<lambda>u.
        if u = ''https://x/page''
          then Answer \<lparr>status = 200, data = StringData ''page'',
                        responseUrl = Some ''https://x/page''\<rparr>
        else if u = ''https://x/ok''
          then Answer \<lparr>status = 200, data = StringData '''',
                        responseUrl = Some ''https://x/ok''\<rparr>
        else if u = ''https://x/moved''
          then Answer \<lparr>status = 200, data = StringData '''',
                        responseUrl = Some ''https://x/new''\<rparr>
        else if u = ''https://x/missing''
          then Answer \<lparr>status = 404, data = StringData '''',
                        responseUrl = Some ''https://x/missing''\<rparr>
        else if u = ''https://x/old''
          then Answer \<lparr>status = 404, data = StringData '''',
                        responseUrl = Some ''https://x/gone''\<rparr>
        else if u = ''data:text/plain,hi''
          then Answer \<lparr>status = 200, data = StringData ''hi'', responseUrl = None\<rparr>
        else NoAnswer),
      cheerio_load = (\<lambda>d. if d = StringData ''page'' then Some example_doc else Some []),
      inner_html = (\<lambda>ns. '''')\<rparr>"

section \<open>Facts about the join\<close>

lemma those_map_Some: "those (map Some xs) = Some xs"
  by (induction xs) auto

lemma promise_all_loop_fulfilled:
  assumes "length vals = length xs" "distinct order" "set order \<subseteq> {..<length xs}"
          "\<forall>i<length xs. vals ! i = (if i \<in> set order then None else Some (xs ! i))"
          "remaining = length order" "order \<noteq> []"
  shows "promise_all_loop (map Fulfilled xs) order vals remaining = Some (Fulfilled xs)"
  using assms
proof (induction order arbitrary: vals remaining)
  case Nil
  then show ?case by simp
next
  case (Cons i order)
  from Cons.prems have i: "i < length xs" and vi: "vals ! i = None" by auto
  let ?vals = "vals[i := Some (xs ! i)]"
  have upd: "\<forall>j<length xs. ?vals ! j = (if j \<in> set order then None else Some (xs ! j))"
  proof (intro allI impI)
    fix j assume j: "j < length xs"
    show "?vals ! j = (if j \<in> set order then None else Some (xs ! j))"
    proof (cases "j = i")
      case True
      moreover have "i \<notin> set order" using Cons.prems(2) by simp
      ultimately show ?thesis using i Cons.prems(1) by simp
    next
      case False
      moreover have "vals ! j = (if j \<in> set (i # order) then None else Some (xs ! j))"
        using Cons.prems(4) j by blast
      ultimately show ?thesis by simp
    qed
  qed
  show ?case
  proof (cases "order = []")
    case True
    have "?vals = map Some xs"
      using upd True Cons.prems(1) by (intro nth_equalityI) simp_all
    then show ?thesis using True i vi Cons.prems(5) by (simp add: those_map_Some)
  next
    case False
    have "promise_all_loop (map Fulfilled xs) order ?vals (length order) = Some (Fulfilled xs)"
    proof (rule Cons.IH)
      show "length ?vals = length xs" using Cons.prems(1) by simp
      show "distinct order" using Cons.prems(2) by simp
      show "set order \<subseteq> {..<length xs}" using Cons.prems(3) by simp
      show "\<forall>j<length xs. ?vals ! j = (if j \<in> set order then None else Some (xs ! j))"
        by (rule upd)
      show "length order = length order" by (rule refl)
      show "order \<noteq> []" by (rule False)
    qed
    moreover have "remaining - 1 = length order" "remaining - 1 \<noteq> 0"
      using Cons.prems(5) False by simp_all
    ultimately show ?thesis using i vi by simp
  qed
qed


lemma promise_all_fulfilled:
  assumes "distinct order" "set order = {..<length xs}"
  shows "promise_all (map Fulfilled xs) order = Some (Fulfilled xs)"
proof (cases "xs = []")
  case True
  then show ?thesis by (simp add: promise_all_def)
next
  case False
  have len: "length order = length xs"
    using assms distinct_card[of order] by simp
  have "promise_all_loop (map Fulfilled xs) order (replicate (length xs) None) (length xs) = Some (Fulfilled xs)"
  proof (rule promise_all_loop_fulfilled)
    show "length (replicate (length xs) None) = length xs" by simp
    show "distinct order" by (rule assms(1))
    show "set order \<subseteq> {..<length xs}" using assms(2) by simp
    show "\<forall>i<length xs. replicate (length xs) None ! i = (if i \<in> set order then None else Some (xs ! i))"
      using assms(2) by simp
    show "length xs = length order" using len by simp
    show "order \<noteq> []" using len False by auto
  qed
  then show ?thesis using False by (simp add: promise_all_def)
qed

section \<open>Facts about the route\<close>

lemma processLink_own_probe:
  assumes "\<forall>h. attr link ''href'' = Some h \<longrightarrow> axios_get w' h = axios_get w h"
  shows "processLink w' link = processLink w link"
  using assms by (simp add: processLink_def try_block_def Let_def split: option.splits)

lemma link_details_joined:
  assumes "getPageContent w page_url includeUhf = (requests, Some doc)"
    and "distinct completion" and "set completion = {..<length (select_tag ''a'' doc)}"
  shows "link_details w page_url includeUhf completion =
           (requests @ concat (map (\<lambda>link. fst (processLink w link)) (select_tag ''a'' doc)),
            Some (Reply 200 (Json (JObject [(''links'',
              JArray (map (\<lambda>link. json_of_record (snd (processLink w link))) (select_tag ''a'' doc)))]))))"
proof -
  let ?anchors = "select_tag ''a'' doc"
  let ?results = "map (\<lambda>link. snd (processLink w link)) ?anchors"
  have ps: "map (\<lambda>p. Fulfilled (snd p)) (map (processLink w) ?anchors) = map Fulfilled ?results"
    by simp
  have "promise_all (map Fulfilled ?results) completion = Some (Fulfilled ?results)"
    using assms(2,3) by (intro promise_all_fulfilled) simp_all
  then show ?thesis
    using assms(1) ps by (simp add: link_details_def Let_def comp_def)
qed

lemma example_anchors:
  "select_tag ''a'' example_doc = [link_ok, link_moved, link_missing, link_down, link_no_href]"
  by (simp add: select_tag_def example_doc_def link_ok_def link_moved_def link_missing_def
           link_down_def link_no_href_def)

lemma example_page:
  "getPageContent example_world ''https://x/page'' True = ([''https://x/page''], Some example_doc)"
  by (simp add: getPageContent_def axios_get_def example_world_def)

text \<open>
  A resolved response without a \<open>request\<close>: line 70 stores the status, line 71 throws,
  the catch block finds no \<open>error.response\<close>, and the record keeps every other default.
\<close>

lemma data_href_record:
  "axios_get example_world ''data:text/plain,hi'' =
     Inr \<lparr>status = 200, data = StringData ''hi'', responseUrl = None\<rparr>
   \<and> statusCode (snd (processLink example_world link_data)) = 200
   \<and> statusColor (snd (processLink example_world link_data)) = ''green''
   \<and> redirectedUrl (snd (processLink example_world link_data)) = ''''
   \<and> originalUrlColor (snd (processLink example_world link_data)) = ''''
   \<and> redirectedUrlColor (snd (processLink example_world link_data)) = ''''
   \<and> url (snd (processLink example_world link_data)) = Some ''data:text/plain,hi''"
  by (simp add: axios_get_def example_world_def link_data_def processLink_def try_block_def
           on_error_def Let_def)

lemma example_completion: "set [4, 2, 0, 1, 3] = {..<(5::nat)}"
  by (auto simp: lessThan_def)

section \<open>Facts about the helpers\<close>

lemma or_else_empty: "or_else v [] = (case v of None \<Rightarrow> [] | Some s \<Rightarrow> s)"
  by (simp add: or_else_def split: option.splits)

lemma js_includes_iff: "js_includes s sub \<longleftrightarrow> (\<exists>p q. s = p @ sub @ q)"
proof (induction s)
  case Nil
  then show ?case by auto
next
  case (Cons c cs)
  have pre: "take (length sub) (c # cs) = sub \<longleftrightarrow> (\<exists>q. c # cs = sub @ q)"
    by (metis append_eq_conv_conj)
  have "(\<exists>p q. c # cs = p @ sub @ q) \<longleftrightarrow> (\<exists>q. c # cs = sub @ q) \<or> (\<exists>p q. cs = p @ sub @ q)"
  proof
    assume "\<exists>p q. c # cs = p @ sub @ q"
    then obtain p q where pq: "c # cs = p @ sub @ q" by blast
    show "(\<exists>q. c # cs = sub @ q) \<or> (\<exists>p q. cs = p @ sub @ q)"
    proof (cases p)
      case Nil
      then show ?thesis using pq by auto
    next
      case (Cons a p')
      then have "cs = p' @ sub @ q" using pq by simp
      then show ?thesis by blast
    qed
  next
    assume "(\<exists>q. c # cs = sub @ q) \<or> (\<exists>p q. cs = p @ sub @ q)"
    then show "\<exists>p q. c # cs = p @ sub @ q"
    proof
      assume "\<exists>q. c # cs = sub @ q"
      then obtain q where "c # cs = [] @ sub @ q" by auto
      then show ?thesis by blast
    next
      assume "\<exists>p q. cs = p @ sub @ q"
      then obtain p q where "c # cs = (c # p) @ sub @ q" by auto
      then show ?thesis by blast
    qed
  qed
  then show ?case using Cons.IH pre by simp
qed

lemma axios_get_resolved_2xx:
  "axios_get w u = Inr resp \<Longrightarrow> 200 \<le> status resp \<and> status resp < 300"
  by (simp add: axios_get_def split: answer.splits if_splits)

subsection \<open>Severity colour\<close>

text \<open>
  C6. In every record that \<open>processLink\<close> builds, on every path (no href, response,
  error with a response, error with none), \<open>statusColor\<close> is the severity of
  \<open>statusCode\<close>: red from 500, else orange from 400, else yellow from 300, else green.
\<close>

theorem statusColor_is_severity_of_statusCode:
  "statusColor (snd (processLink w link)) =
     (if statusCode (snd (processLink w link)) \<ge> 500 then ''red''
      else if statusCode (snd (processLink w link)) \<ge> 400 then ''orange''
      else if statusCode (snd (processLink w link)) \<ge> 300 then ''yellow''
      else ''green'')"
  by (auto simp: processLink_def try_block_def on_error_def getStatusColor_def Let_def
           dest!: axios_get_resolved_2xx split: option.splits sum.splits)

subsection \<open>Probe without a response\<close>

text \<open>
  C7. An anchor with a non-empty href whose request is rejected with no response at all
  (network error, DNS failure, timeout) gets a record with the defaults
  \<open>statusCode = 200\<close>, \<open>statusColor = "green"\<close> and \<open>redirectedUrl = ""\<close>; the rejection
  is absorbed: the one request is made and a record is returned.
\<close>

theorem no_response_keeps_defaults:
  assumes "attr link ''href'' = Some h" and "h \<noteq> []"
    and "axios_get w h = Inl (AxiosError None)"
  shows "fst (processLink w link) = [h]
         \<and> statusCode (snd (processLink w link)) = 200
         \<and> statusColor (snd (processLink w link)) = ''green''
         \<and> redirectedUrl (snd (processLink w link)) = ''''"
  using assms by (simp add: processLink_def try_block_def on_error_def Let_def)

theorem no_response_keeps_defaults_witness:
  "attr link_down ''href'' = Some ''https://x/down''
   \<and> ''https://x/down'' \<noteq> ''''
   \<and> axios_get example_world ''https://x/down'' = Inl (AxiosError None)
   \<and> fst (processLink example_world link_down) = [''https://x/down'']
   \<and> statusCode (snd (processLink example_world link_down)) = 200
   \<and> statusColor (snd (processLink example_world link_down)) = ''green''
   \<and> redirectedUrl (snd (processLink example_world link_down)) = ''''"
proof -
  have a: "attr link_down ''href'' = Some ''https://x/down''"
    by (simp add: link_down_def)
  have b: "''https://x/down'' \<noteq> ''''" by simp
  have c: "axios_get example_world ''https://x/down'' = Inl (AxiosError None)"
    by (simp add: axios_get_def example_world_def)
  show ?thesis using a b c no_response_keeps_defaults [OF a b c] by simp
qed

subsection \<open>Anchor without a destination\<close>

text \<open>
  C8. An anchor whose href attribute is absent or empty gets a record with
  \<open>statusCode = 200\<close>, \<open>statusColor = "green"\<close> and \<open>redirectedUrl = ""\<close>, and no
  request is issued for it.
\<close>

theorem no_href_default:
  assumes "\<not> truthy (attr link ''href'')"
  shows "fst (processLink w link) = []
         \<and> statusCode (snd (processLink w link)) = 200
         \<and> statusColor (snd (processLink w link)) = ''green''
         \<and> redirectedUrl (snd (processLink w link)) = ''''"
  using assms by (simp add: processLink_def truthy_def Let_def split: option.splits)

theorem no_href_default_witness:
  "\<not> truthy (attr link_no_href ''href'')
   \<and> fst (processLink example_world link_no_href) = []
   \<and> statusCode (snd (processLink example_world link_no_href)) = 200
   \<and> statusColor (snd (processLink example_world link_no_href)) = ''green''
   \<and> redirectedUrl (snd (processLink example_world link_no_href)) = ''''
   \<and> \<not> truthy (attr link_empty_href ''href'')
   \<and> fst (processLink example_world link_empty_href) = []
   \<and> statusCode (snd (processLink example_world link_empty_href)) = 200
   \<and> statusColor (snd (processLink example_world link_empty_href)) = ''green''
   \<and> redirectedUrl (snd (processLink example_world link_empty_href)) = ''''"
proof -
  have a: "\<not> truthy (attr link_no_href ''href'')"
    by (simp add: link_no_href_def truthy_def)
  have b: "\<not> truthy (attr link_empty_href ''href'')"
    by (simp add: link_empty_href_def truthy_def)
  show ?thesis
    using a b no_href_default [OF a, of example_world] no_href_default [OF b, of example_world]
    by simp
qed

subsection \<open>Unavailable document\<close>

text \<open>
  C9. When the request for the source page is rejected, the route replies once, with
  status 500 and the message, whatever the completion order; the page request is the only
  request made, so nothing is extracted and no record is returned.
\<close>

theorem document_unavailable_fails_request:
  assumes "axios_get w page_url = Inl e"
  shows "link_details w page_url includeUhf completion =
           ([page_url], Some (Reply 500 (Plain ''Failed to fetch page content.'')))"
  using assms by (simp add: link_details_def getPageContent_def)

theorem document_unavailable_fails_request_witness:
  "axios_get example_world ''https://x/nopage'' = Inl (AxiosError None)
   \<and> link_details example_world ''https://x/nopage'' False [1, 0] =
         ([''https://x/nopage''], Some (Reply 500 (Plain ''Failed to fetch page content.'')))"
proof -
  have a: "axios_get example_world ''https://x/nopage'' = Inl (AxiosError None)"
    by (simp add: axios_get_def example_world_def)
  show ?thesis
    using a document_unavailable_fails_request [OF a, of False "[1, 0]"] by simp
qed

subsection \<open>Carried and defaulted fields\<close>

text \<open>
  C10. In every record \<open>ariaLabel\<close> and \<open>target\<close> are the attribute values, the empty
  string when the attribute is absent; \<open>url\<close> is the href as read, \<open>undefined\<close> when the
  anchor has none, and the serialised record has a \<open>url\<close> key exactly when the anchor
  has an href attribute.
\<close>

theorem absent_attributes_in_record:
  "ariaLabel (snd (processLink w link)) =
     (case attr link ''aria-label'' of None \<Rightarrow> '''' | Some s \<Rightarrow> s)
   \<and> target (snd (processLink w link)) =
     (case attr link ''target'' of None \<Rightarrow> '''' | Some s \<Rightarrow> s)
   \<and> url (snd (processLink w link)) = attr link ''href''
   \<and> (''url'' \<in> set (json_keys (json_of_record (snd (processLink w link))))
        \<longleftrightarrow> attr link ''href'' \<noteq> None)"
proof -
  let ?r = "snd (processLink w link)"
  have a: "ariaLabel ?r = or_else (attr link ''aria-label'') ''''"
    by (simp add: processLink_def try_block_def on_error_def Let_def
             split: option.splits sum.splits)
  have t: "target ?r = or_else (attr link ''target'') ''''"
    by (simp add: processLink_def try_block_def on_error_def Let_def
             split: option.splits sum.splits)
  have u: "url ?r = attr link ''href''"
    by (simp add: processLink_def try_block_def on_error_def Let_def
             split: option.splits sum.splits)
  have k: "''url'' \<in> set (json_keys (json_of_record ?r)) \<longleftrightarrow> url ?r \<noteq> None"
    by (cases "url ?r") (simp_all add: json_of_record_def)
  show ?thesis using a t u k by (simp add: or_else_empty)
qed

subsection \<open>Error responses\<close>

text \<open>
  C1, at a failing input. The anchor points to \<open>https://x/old\<close>; the request is
  rejected with an error that carries a response of status 404 whose final URL is
  \<open>https://x/gone\<close>. The record takes the status from that response and leaves
  \<open>redirectedUrl\<close> empty, where the branch for a resolved request stores the final URL.
\<close>

theorem error_response_final_url_not_recorded:
  "axios_get example_world ''https://x/old'' =
     Inl (AxiosError (Some \<lparr>status = 404, data = StringData '''', responseUrl = Some ''https://x/gone''\<rparr>))
   \<and> statusCode (snd (processLink example_world link_old)) = 404
   \<and> statusColor (snd (processLink example_world link_old)) = ''orange''
   \<and> redirectedUrl (snd (processLink example_world link_old)) = ''''
   \<and> redirectedUrl (snd (processLink example_world link_moved)) = ''https://x/new''"
  by (simp add: axios_get_def example_world_def link_old_def link_moved_def processLink_def try_block_def on_error_def getStatusColor_def Let_def)

subsection \<open>Role of a link\<close>

text \<open>
  C2 as stated fails: the class \<open>octagon\<close> has the single token \<open>octagon\<close>, so by token
  membership the role is \<open>unknown\<close>, and the code answers \<open>cta\<close> because the string
  contains \<open>cta\<close>.
\<close>

theorem role_by_tokens_counterexample:
  "linkType (snd (processLink example_world link_octagon))
     \<noteq> role_by_token_membership (or_else (attr link_octagon ''class'') '''')
   \<and> linkType (snd (processLink example_world link_octagon)) = ''cta''
   \<and> role_by_token_membership (or_else (attr link_octagon ''class'') '''') = ''unknown''"
  by (simp add: link_octagon_def processLink_def classify_role_def or_else_def Let_def
           role_by_token_membership_def tokens_def js_whitespace_def)

text \<open>
  C2, amended. The role is decided by substring containment in the class attribute (the
  empty string when absent), first match winning in the order \<open>cta\<close>, \<open>button\<close>, \<open>link\<close>,
  and is \<open>unknown\<close> otherwise.
\<close>

theorem role_by_substring:
  "linkType (snd (processLink w link)) =
     (let classNames = (case attr link ''class'' of None \<Rightarrow> '''' | Some s \<Rightarrow> s)
      in if (\<exists>p q. classNames = p @ ''cta'' @ q) then ''cta''
         else if (\<exists>p q. classNames = p @ ''button'' @ q) then ''button''
         else if (\<exists>p q. classNames = p @ ''link'' @ q) then ''link''
         else ''unknown'')"
proof -
  have "linkType (snd (processLink w link)) = classify_role (or_else (attr link ''class'') '''')"
    by (simp add: processLink_def try_block_def on_error_def Let_def
             split: option.splits sum.splits)
  then show ?thesis
    by (simp only: classify_role_def js_includes_iff or_else_empty Let_def)
qed

subsection \<open>Divergence flags\<close>

text \<open>
  C3 as stated fails. For the anchor to \<open>https://x/down\<close>, whose request gets no
  response, \<open>url\<close> is the href and \<open>redirectedUrl\<close> is empty, so they differ, and both
  colours are empty. The same holds for the anchor without href, whose \<open>url\<close> is
  \<open>undefined\<close>.
\<close>

theorem divergence_flags_counterexample:
  "\<not> ((originalUrlColor (snd (processLink example_world link_down)) \<noteq> ''''
         \<longleftrightarrow> redirectedUrlColor (snd (processLink example_world link_down)) \<noteq> '''')
       \<and> (originalUrlColor (snd (processLink example_world link_down)) \<noteq> ''''
            \<and> redirectedUrlColor (snd (processLink example_world link_down)) \<noteq> ''''
          \<longleftrightarrow> url (snd (processLink example_world link_down))
                \<noteq> Some (redirectedUrl (snd (processLink example_world link_down)))))
   \<and> \<not> ((originalUrlColor (snd (processLink example_world link_no_href)) \<noteq> ''''
         \<longleftrightarrow> redirectedUrlColor (snd (processLink example_world link_no_href)) \<noteq> '''')
       \<and> (originalUrlColor (snd (processLink example_world link_no_href)) \<noteq> ''''
            \<and> redirectedUrlColor (snd (processLink example_world link_no_href)) \<noteq> ''''
          \<longleftrightarrow> url (snd (processLink example_world link_no_href))
                \<noteq> Some (redirectedUrl (snd (processLink example_world link_no_href)))))"
  by (simp add: axios_get_def example_world_def link_down_def link_no_href_def processLink_def try_block_def on_error_def
           Let_def)

text \<open>
  C3, amended. In every record \<open>originalUrlColor\<close> is non-empty exactly when
  \<open>redirectedUrlColor\<close> is. For an anchor whose request resolved with a response that
  carries its final URL (\<open>response.request.res.responseUrl\<close> can be read), both are
  non-empty exactly when \<open>url\<close> differs from \<open>redirectedUrl\<close>. For an anchor with no or
  an empty href, and for one whose request got no response at all, both are empty.
\<close>

theorem divergence_flags:
  "(originalUrlColor (snd (processLink w link)) \<noteq> ''''
      \<longleftrightarrow> redirectedUrlColor (snd (processLink w link)) \<noteq> '''')
   \<and> (\<forall>h resp final.
         attr link ''href'' = Some h \<and> h \<noteq> '''' \<and> axios_get w h = Inr resp
         \<and> responseUrl resp = Some final \<longrightarrow>
         (originalUrlColor (snd (processLink w link)) \<noteq> ''''
            \<and> redirectedUrlColor (snd (processLink w link)) \<noteq> ''''
          \<longleftrightarrow> url (snd (processLink w link)) \<noteq> Some (redirectedUrl (snd (processLink w link)))))
   \<and> (\<not> truthy (attr link ''href'') \<longrightarrow>
         originalUrlColor (snd (processLink w link)) = ''''
         \<and> redirectedUrlColor (snd (processLink w link)) = '''')
   \<and> (\<forall>h. attr link ''href'' = Some h \<and> axios_get w h = Inl (AxiosError None) \<longrightarrow>
         originalUrlColor (snd (processLink w link)) = ''''
         \<and> redirectedUrlColor (snd (processLink w link)) = '''')"
proof (intro conjI allI impI)
  show "originalUrlColor (snd (processLink w link)) \<noteq> ''''
          \<longleftrightarrow> redirectedUrlColor (snd (processLink w link)) \<noteq> ''''"
    by (simp add: processLink_def try_block_def on_error_def Let_def
             split: option.splits sum.splits)
next
  fix h resp final
  assume "attr link ''href'' = Some h \<and> h \<noteq> '''' \<and> axios_get w h = Inr resp
          \<and> responseUrl resp = Some final"
  then show "originalUrlColor (snd (processLink w link)) \<noteq> ''''
               \<and> redirectedUrlColor (snd (processLink w link)) \<noteq> ''''
             \<longleftrightarrow> url (snd (processLink w link)) \<noteq> Some (redirectedUrl (snd (processLink w link)))"
    by (simp add: processLink_def try_block_def Let_def)
next
  assume "\<not> truthy (attr link ''href'')"
  then show "originalUrlColor (snd (processLink w link)) = ''''"
    by (simp add: processLink_def truthy_def Let_def split: option.splits)
next
  assume "\<not> truthy (attr link ''href'')"
  then show "redirectedUrlColor (snd (processLink w link)) = ''''"
    by (simp add: processLink_def truthy_def Let_def split: option.splits)
next
  fix h
  assume "attr link ''href'' = Some h \<and> axios_get w h = Inl (AxiosError None)"
  then show "originalUrlColor (snd (processLink w link)) = ''''"
    by (simp add: processLink_def try_block_def on_error_def Let_def)
next
  fix h
  assume "attr link ''href'' = Some h \<and> axios_get w h = Inl (AxiosError None)"
  then show "redirectedUrlColor (snd (processLink w link)) = ''''"
    by (simp add: processLink_def try_block_def on_error_def Let_def)
qed

theorem divergence_flags_witness:
  "attr link_moved ''href'' = Some ''https://x/moved''
   \<and> ''https://x/moved'' \<noteq> ''''
   \<and> axios_get example_world ''https://x/moved'' =
        Inr \<lparr>status = 200, data = StringData '''', responseUrl = Some ''https://x/new''\<rparr>
   \<and> url (snd (processLink example_world link_moved))
        \<noteq> Some (redirectedUrl (snd (processLink example_world link_moved)))
   \<and> originalUrlColor (snd (processLink example_world link_moved)) \<noteq> ''''
   \<and> redirectedUrlColor (snd (processLink example_world link_moved)) \<noteq> ''''
   \<and> attr link_ok ''href'' = Some ''https://x/ok''
   \<and> axios_get example_world ''https://x/ok'' =
        Inr \<lparr>status = 200, data = StringData '''', responseUrl = Some ''https://x/ok''\<rparr>
   \<and> url (snd (processLink example_world link_ok))
        = Some (redirectedUrl (snd (processLink example_world link_ok)))
   \<and> originalUrlColor (snd (processLink example_world link_ok)) = ''''
   \<and> \<not> truthy (attr link_no_href ''href'')
   \<and> originalUrlColor (snd (processLink example_world link_no_href)) = ''''
   \<and> redirectedUrlColor (snd (processLink example_world link_no_href)) = ''''
   \<and> attr link_down ''href'' = Some ''https://x/down''
   \<and> axios_get example_world ''https://x/down'' = Inl (AxiosError None)
   \<and> originalUrlColor (snd (processLink example_world link_down)) = ''''
   \<and> redirectedUrlColor (snd (processLink example_world link_down)) = ''''"
proof -
  have m: "attr link_moved ''href'' = Some ''https://x/moved'' \<and> ''https://x/moved'' \<noteq> ''''
           \<and> axios_get example_world ''https://x/moved'' =
                Inr \<lparr>status = 200, data = StringData '''', responseUrl = Some ''https://x/new''\<rparr>"
    by (simp add: link_moved_def axios_get_def example_world_def)
  have um: "url (snd (processLink example_world link_moved))
              \<noteq> Some (redirectedUrl (snd (processLink example_world link_moved)))"
    by (simp add: link_moved_def axios_get_def example_world_def processLink_def try_block_def Let_def)
  have k: "attr link_ok ''href'' = Some ''https://x/ok'' \<and> ''https://x/ok'' \<noteq> ''''
           \<and> axios_get example_world ''https://x/ok'' =
                Inr \<lparr>status = 200, data = StringData '''', responseUrl = Some ''https://x/ok''\<rparr>"
    by (simp add: link_ok_def axios_get_def example_world_def)
  have uk: "url (snd (processLink example_world link_ok))
              = Some (redirectedUrl (snd (processLink example_world link_ok)))"
    by (simp add: link_ok_def axios_get_def example_world_def processLink_def try_block_def Let_def)
  have n: "\<not> truthy (attr link_no_href ''href'')"
    by (simp add: link_no_href_def truthy_def)
  have d: "attr link_down ''href'' = Some ''https://x/down''
           \<and> axios_get example_world ''https://x/down'' = Inl (AxiosError None)"
    by (simp add: link_down_def axios_get_def example_world_def)
  note at_moved = divergence_flags [of example_world link_moved]
  note at_ok = divergence_flags [of example_world link_ok]
  note at_no_href = divergence_flags [of example_world link_no_href]
  note at_down = divergence_flags [of example_world link_down]
  have fm: "responseUrl \<lparr>status = 200, data = StringData '''',
                          responseUrl = Some ''https://x/new''\<rparr> = Some ''https://x/new''"
    by simp
  have fk: "responseUrl \<lparr>status = 200, data = StringData '''',
                          responseUrl = Some ''https://x/ok''\<rparr> = Some ''https://x/ok''"
    by simp
  have "originalUrlColor (snd (processLink example_world link_moved)) \<noteq> ''''
        \<and> redirectedUrlColor (snd (processLink example_world link_moved)) \<noteq> ''''"
    using at_moved m fm um by blast
  moreover have "originalUrlColor (snd (processLink example_world link_ok)) = ''''"
    using at_ok k fk uk by blast
  moreover have "originalUrlColor (snd (processLink example_world link_no_href)) = ''''
        \<and> redirectedUrlColor (snd (processLink example_world link_no_href)) = ''''"
    using at_no_href n by blast
  moreover have "originalUrlColor (snd (processLink example_world link_down)) = ''''
        \<and> redirectedUrlColor (snd (processLink example_world link_down)) = ''''"
    using at_down d by blast
  ultimately show ?thesis using m um k uk n d by simp
qed

subsection \<open>The batch\<close>

text \<open>
  C5. For a document whose anchors are \<open>a1 .. an\<close> in document order, whatever the order
  in which the probes complete, the route replies with an array of \<open>n\<close> records in which
  record \<open>i\<close> is the record of anchor \<open>i\<close>.
\<close>

theorem order_preserved:
  assumes "getPageContent w page_url includeUhf = (requests, Some doc)"
    and "distinct completion" and "set completion = {..<length (select_tag ''a'' doc)}"
  shows "snd (link_details w page_url includeUhf completion) =
           Some (Reply 200 (Json (JObject [(''links'',
             JArray (map (\<lambda>link. json_of_record (snd (processLink w link)))
                         (select_tag ''a'' doc)))])))"
  using link_details_joined [OF assms] by simp

theorem order_preserved_witness:
  "getPageContent example_world ''https://x/page'' True = ([''https://x/page''], Some example_doc)
   \<and> distinct [4, 2, 0, 1, 3::nat]
   \<and> set [4, 2, 0, 1, 3] = {..<length (select_tag ''a'' example_doc)}
   \<and> snd (link_details example_world ''https://x/page'' True [4, 2, 0, 1, 3]) =
        Some (Reply 200 (Json (JObject [(''links'',
          JArray (map (\<lambda>link. json_of_record (snd (processLink example_world link)))
                      [link_ok, link_moved, link_missing, link_down, link_no_href]))])))"
proof -
  have d: "distinct [4, 2, 0, 1, 3::nat]" by simp
  have s: "set [4, 2, 0, 1, 3] = {..<length (select_tag ''a'' example_doc)}"
    using example_completion by (simp add: example_anchors)
  show ?thesis
    using example_page d s order_preserved [OF example_page d s]
    by (simp only: example_anchors simp_thms)
qed

text \<open>
  C4. For a document that was obtained and has \<open>N\<close> anchors, the route replies with
  exactly \<open>N\<close> records, whatever the outcome of each probe (resolved, rejected with a
  response, rejected without one): no outcome makes the route fail or drop a record.
  The record at position \<open>i\<close> depends on its own anchor and its own probe only: a
  network that answers that anchor's href alike yields the same record there.
\<close>

theorem batch_yields_all_records:
  assumes "getPageContent w page_url includeUhf = (requests, Some doc)"
    and "distinct completion" and "set completion = {..<length (select_tag ''a'' doc)}"
  shows "\<exists>results.
           snd (link_details w page_url includeUhf completion) =
             Some (Reply 200 (Json (JObject [(''links'', JArray (map json_of_record results))])))
           \<and> length results = length (select_tag ''a'' doc)
           \<and> (\<forall>i w'. i < length results
                 \<and> (\<forall>h. attr (select_tag ''a'' doc ! i) ''href'' = Some h
                          \<longrightarrow> axios_get w' h = axios_get w h)
                 \<longrightarrow> results ! i = snd (processLink w' (select_tag ''a'' doc ! i)))"
proof -
  let ?anchors = "select_tag ''a'' doc"
  let ?results = "map (\<lambda>link. snd (processLink w link)) ?anchors"
  have "snd (link_details w page_url includeUhf completion) =
          Some (Reply 200 (Json (JObject [(''links'', JArray (map json_of_record ?results))])))"
    using link_details_joined [OF assms] by (simp add: comp_def)
  moreover have "length ?results = length ?anchors" by simp
  moreover have "\<forall>i w'. i < length ?results
                 \<and> (\<forall>h. attr (?anchors ! i) ''href'' = Some h \<longrightarrow> axios_get w' h = axios_get w h)
                 \<longrightarrow> ?results ! i = snd (processLink w' (?anchors ! i))"
  proof (intro allI impI)
    fix i and w' :: world
    assume a: "i < length ?results
                 \<and> (\<forall>h. attr (?anchors ! i) ''href'' = Some h \<longrightarrow> axios_get w' h = axios_get w h)"
    then have "processLink w' (?anchors ! i) = processLink w (?anchors ! i)"
      by (intro processLink_own_probe) blast
    then show "?results ! i = snd (processLink w' (?anchors ! i))"
      using a by simp
  qed
  ultimately show ?thesis by blast
qed

theorem batch_yields_all_records_witness:
  "getPageContent example_world ''https://x/page'' True = ([''https://x/page''], Some example_doc)
   \<and> distinct [4, 2, 0, 1, 3::nat]
   \<and> set [4, 2, 0, 1, 3] = {..<length (select_tag ''a'' example_doc)}
   \<and> (\<exists>results.
         snd (link_details example_world ''https://x/page'' True [4, 2, 0, 1, 3]) =
           Some (Reply 200 (Json (JObject [(''links'', JArray (map json_of_record results))])))
         \<and> length results = 5)"
proof -
  have d: "distinct [4, 2, 0, 1, 3::nat]" by simp
  have s: "set [4, 2, 0, 1, 3] = {..<length (select_tag ''a'' example_doc)}"
    using example_completion by (simp add: example_anchors)
  have n: "length (select_tag ''a'' example_doc) = 5" by (simp add: example_anchors)
  obtain results where
    "snd (link_details example_world ''https://x/page'' True [4, 2, 0, 1, 3]) =
       Some (Reply 200 (Json (JObject [(''links'', JArray (map json_of_record results))])))"
    and "length results = length (select_tag ''a'' example_doc)"
    using batch_yields_all_records [OF example_page d s] by blast
  then show ?thesis using example_page d s n by auto
qed

end
